theory Spec2Isabelle
  imports Complex_Main
begin

section \<open>The Superstore ETL pipeline (src/etl/main.py)\<close>

text \<open>
  The pipeline reads a flat sales table, derives feature columns (\<open>transform_data\<close>),
  builds five dimension tables (\<open>create_dimensions\<close>), resolves the fact table's
  foreign keys (\<open>load_face_sales\<close>) and writes every table in batches
  (\<open>insert_data\<close>).

  Conventions of the embedding.
  \<^item> A pandas column entry that may be missing is an \<open>option\<close>: \<open>None\<close> is NaN (NaT for
    a date). Equality on \<open>option\<close> is the equality pandas uses in \<open>drop_duplicates\<close> and
    in \<open>merge\<close> keys, where two missing entries count as equal.
  \<^item> float64 entries are real numbers: rounding, overflow and infinities of the
    floating-point arithmetic are not modelled.
  \<^item> An order or ship date is a calendar date (year, month, day), as the data model has
    it; \<open>pd.to_datetime(..., errors='coerce')\<close> is the check that the entry read from
    the file is a date of the calendar, anything else becoming NaT. A time of day is
    not modelled.
  \<^item> The text columns of the input are the columns pandas holds with dtype \<open>object\<close>;
    \<open>row_id\<close>, \<open>quantity\<close>, the measures and \<open>postal_code\<close> are numeric columns.
  \<^item> Python strings are lists of characters; \<open>str.upper\<close> is modelled on the ASCII
    letters.
\<close>

subsection \<open>Calendar dates\<close>

datatype date = YMD (year: nat) (month: nat) (day: nat)

definition leap :: "nat \<Rightarrow> bool" where
  "leap y = (y mod 4 = 0 \<and> (y mod 100 \<noteq> 0 \<or> y mod 400 = 0))"

definition days_in_month :: "nat \<Rightarrow> nat \<Rightarrow> nat" where
  "days_in_month y m =
     (if m = 2 then (if leap y then 29 else 28)
      else if m = 4 \<or> m = 6 \<or> m = 9 \<or> m = 11 then 30 else 31)"

definition valid_date :: "date \<Rightarrow> bool" where
  "valid_date d =
     (1 \<le> month d \<and> month d \<le> 12 \<and> 1 \<le> day d \<and> day d \<le> days_in_month (year d) (month d))"

text \<open>The order of timestamps: chronological, which on dates is lexicographic.\<close>

definition date_le :: "date \<Rightarrow> date \<Rightarrow> bool" where
  "date_le a b =
     (year a < year b \<or> (year a = year b \<and>
        (month a < month b \<or> (month a = month b \<and> day a \<le> day b))))"

definition date_lt :: "date \<Rightarrow> date \<Rightarrow> bool" where
  "date_lt a b = (date_le a b \<and> a \<noteq> b)"


text \<open>The number of a day, counted from 0000-03-01, for differences of dates.\<close>

definition day_number :: "date \<Rightarrow> int" where
  "day_number d =
     (let y = (if month d \<le> 2 then int (year d) - 1 else int (year d));
          mp = (if month d \<le> 2 then int (month d) + 9 else int (month d) - 3)
      in 365 * y + y div 4 - y div 100 + y div 400 + (153 * mp + 2) div 5 + int (day d) - 1)"

text \<open>\<open>strftime('%Y%m%d')\<close> read as an integer.\<close>

definition yyyymmdd :: "date \<Rightarrow> int" where
  "yyyymmdd d = int (year d) * 10000 + int (month d) * 100 + int (day d)"

text \<open>\<open>pd.to_datetime(col, errors='coerce')\<close> on one entry.\<close>

definition to_datetime :: "date option \<Rightarrow> date option" where
  "to_datetime raw =
     (case raw of None \<Rightarrow> None | Some d \<Rightarrow> if valid_date d then Some d else None)"

subsection \<open>Rows of the input table\<close>

record row =
  row_id :: int
  order_id :: "string option"
  order_date :: "date option"
  ship_date :: "date option"
  ship_mode :: "string option"
  customer_id :: "string option"
  customer_name :: "string option"
  segment :: "string option"
  product_id :: "string option"
  product_name :: "string option"
  category :: "string option"
  sub_category :: "string option"
  city :: "string option"
  state :: "string option"
  country :: "string option"
  region :: "string option"
  market :: "string option"
  postal_code :: "real option"
  sales :: "real option"
  quantity :: "int option"
  discount :: "real option"
  profit :: "real option"
  shipping_cost :: "real option"

text \<open>
  A row after \<open>transform_data\<close>: the normalised input columns and the derived ones.
\<close>

record frow =
  base :: row
  shipping_days :: int
  profit_margin :: real
  is_profitable :: int
  discount_category :: string
  order_value_segment :: string
  date_key :: int

text \<open>
  The table: the column names of its header and its rows. The columns that are fields of
  \<open>row\<close> other than the six location columns are taken to be in the header (the
  pipeline reads each of them by name); a location column is read only when its name is
  in the header.
\<close>

record frame =
  columns :: "string list"
  rows :: "row list"

record fframe =
  fcolumns :: "string list"
  frows :: "frow list"

subsection \<open>transform\_data\<close>

definition upper_char :: "char \<Rightarrow> char" where
  "upper_char c =
     (case map_of (zip ''abcdefghijklmnopqrstuvwxyz'' ''ABCDEFGHIJKLMNOPQRSTUVWXYZ'') c of
        Some u \<Rightarrow> u
      | None \<Rightarrow> c)"

text \<open>\<open>astype(str)\<close> on an entry of an object column: a missing entry prints as nan.\<close>

definition astype_str :: "string option \<Rightarrow> string" where
  "astype_str v = (case v of None \<Rightarrow> ''nan'' | Some s \<Rightarrow> s)"

text \<open>\<open>col.astype(str).str.upper()\<close>\<close>

definition upper_id :: "string option \<Rightarrow> string option" where
  "upper_id v = Some (map upper_char (astype_str v))"

text \<open>\<open>col.astype(str).str.slice(0, 255)\<close>\<close>

definition truncate_str :: "string option \<Rightarrow> string option" where
  "truncate_str v = Some (take 255 (astype_str v))"

text \<open>\<open>(ship_date - order_date).dt.days\<close>, then \<open>fillna(0)\<close>.\<close>

definition shipping_days_of :: "date option \<Rightarrow> date option \<Rightarrow> int" where
  "shipping_days_of ship ord =
     (case (ship, ord) of
        (Some s, Some d) \<Rightarrow> day_number s - day_number d
      | _ \<Rightarrow> 0)"

text \<open>
  \<open>(profit / sales) * 100\<close>, then infinities replaced by 0 and \<open>fillna(0)\<close>: a division
  by zero gives an infinity or NaN, a missing operand gives NaN.
\<close>

definition profit_margin_of :: "real option \<Rightarrow> real option \<Rightarrow> real" where
  "profit_margin_of p s =
     (case (p, s) of
        (Some pv, Some sv) \<Rightarrow> if sv = 0 then 0 else pv / sv * 100
      | _ \<Rightarrow> 0)"

text \<open>\<open>np.where(profit > 0, 1, 0)\<close>: a comparison with NaN is false.\<close>

definition is_profitable_of :: "real option \<Rightarrow> int" where
  "is_profitable_of p = (case p of Some pv \<Rightarrow> if pv > 0 then 1 else 0 | None \<Rightarrow> 0)"

text \<open>
  The nested function of \<open>transform_data\<close>. On NaN both comparisons are false, so the
  last branch is taken.
\<close>

definition categorize_discount :: "real option \<Rightarrow> string" where
  "categorize_discount d =
     (if d = Some 0 then ''No Discount''
      else if (case d of Some x \<Rightarrow> x < 0.2 | None \<Rightarrow> False) then ''Low''
      else ''High'')"

text \<open>
  \<open>Series.quantile(0.75)\<close>: missing entries are skipped, the rest is sorted, and the value
  at position \<open>0.75 * (n - 1)\<close> is interpolated linearly between its two neighbours; an
  empty column gives NaN.
\<close>

definition dropna :: "'a option list \<Rightarrow> 'a list" where
  "dropna col = concat (map (\<lambda>v. case v of None \<Rightarrow> [] | Some x \<Rightarrow> [x]) col)"

definition quantile75 :: "real option list \<Rightarrow> real option" where
  "quantile75 col =
     (let vs = sort (dropna col); n = length vs
      in if n = 0 then None
         else let lo = (3 * (n - 1)) div 4;
                  hi = min (lo + 1) (n - 1);
                  frac = real ((3 * (n - 1)) mod 4) / 4
              in Some (vs ! lo + frac * (vs ! hi - vs ! lo)))"

text \<open>\<open>np.where(df['sales'] > sales_threshold, 'High Value', 'Standard Value')\<close> on one entry.\<close>

definition value_segment :: "real option \<Rightarrow> real option \<Rightarrow> string" where
  "value_segment sales_threshold s =
     (if (case (s, sales_threshold) of (Some x, Some t) \<Rightarrow> x > t | _ \<Rightarrow> False)
      then ''High Value'' else ''Standard Value'')"

text \<open>\<open>df['order_date'].dt.strftime('%Y%m%d').fillna(0).astype(np.int64)\<close> on one entry.\<close>

definition date_key_of :: "date option \<Rightarrow> int" where
  "date_key_of d = (case d of None \<Rightarrow> 0 | Some x \<Rightarrow> yyyymmdd x)"

text \<open>Steps 1 and 2: identifiers in upper case, dates parsed.\<close>

definition normalize_row :: "row \<Rightarrow> row" where
  "normalize_row r =
     r\<lparr>customer_id := upper_id (customer_id r),
       product_id := upper_id (product_id r),
       order_date := to_datetime (order_date r),
       ship_date := to_datetime (ship_date r)\<rparr>"

text \<open>The last loop: every object column through \<open>astype(str).str.slice(0, 255)\<close>.\<close>

definition truncate_row :: "row \<Rightarrow> row" where
  "truncate_row r =
     r\<lparr>order_id := truncate_str (order_id r),
       ship_mode := truncate_str (ship_mode r),
       customer_id := truncate_str (customer_id r),
       customer_name := truncate_str (customer_name r),
       segment := truncate_str (segment r),
       product_id := truncate_str (product_id r),
       product_name := truncate_str (product_name r),
       category := truncate_str (category r),
       sub_category := truncate_str (sub_category r),
       city := truncate_str (city r),
       state := truncate_str (state r),
       country := truncate_str (country r),
       region := truncate_str (region r),
       market := truncate_str (market r)\<rparr>"

text \<open>
  Step 3 on one row, given the threshold, which \<open>transform_data\<close> computes once from
  the whole \<open>sales\<close> column before the classification.
\<close>

definition feature_row :: "real option \<Rightarrow> row \<Rightarrow> frow" where
  "feature_row sales_threshold r =
     \<lparr>base = truncate_row r,
      shipping_days = shipping_days_of (ship_date r) (order_date r),
      profit_margin = profit_margin_of (profit r) (sales r),
      is_profitable = is_profitable_of (profit r),
      discount_category = take 255 (categorize_discount (discount r)),
      order_value_segment = take 255 (value_segment sales_threshold (sales r)),
      date_key = date_key_of (order_date r)\<rparr>"

text \<open>
  \<open>df.columns.str.lower().str.replace('.', '_').str.replace(' ', '_').str.replace('-', '_')\<close>
  on one column name.
\<close>

definition lower_char :: "char \<Rightarrow> char" where
  "lower_char c =
     (case map_of (zip ''ABCDEFGHIJKLMNOPQRSTUVWXYZ'' ''abcdefghijklmnopqrstuvwxyz'') c of
        Some l \<Rightarrow> l
      | None \<Rightarrow> c)"

definition normalize_column :: "string \<Rightarrow> string" where
  "normalize_column name =
     map (\<lambda>c. if c = CHR ''.'' \<or> c = CHR '' '' \<or> c = CHR ''-'' then CHR ''_'' else c)
       (map lower_char name)"

definition transform_data :: "frame \<Rightarrow> fframe" where
  "transform_data df =
     (let rs = map normalize_row (rows df);
          sales_threshold = quantile75 (map sales rs)
      in \<lparr>fcolumns = map normalize_column (columns df),
          frows = map (feature_row sales_threshold) rs\<rparr>)"

subsection \<open>The store and insert\_data\<close>

text \<open>
  An entry of a table as it is written: \<open>NaN\<close> is a missing entry of a pandas table,
  \<open>Null\<close> is Python's \<open>None\<close>, which the driver writes as SQL NULL.
\<close>

datatype cell = NaN | Null | IntV int | NumV real | StrV string | DateV date | BoolV bool

definition opt_cell :: "('a \<Rightarrow> cell) \<Rightarrow> 'a option \<Rightarrow> cell" where
  "opt_cell f v = (case v of None \<Rightarrow> NaN | Some x \<Rightarrow> f x)"

text \<open>\<open>pd.notnull\<close> on one entry, and \<open>df.where(pd.notnull(df), None)\<close> on one entry.\<close>

definition notnull :: "cell \<Rightarrow> bool" where
  "notnull c = (c \<noteq> NaN \<and> c \<noteq> Null)"

definition where_notnull :: "cell \<Rightarrow> cell" where
  "where_notnull c = (if notnull c then c else Null)"

datatype error = ValueError | AssertionError | JoinError | LoadFailure string

text \<open>The committed rows of every table of the database, by table name.\<close>

type_synonym store = "string \<Rightarrow> cell list list"

text \<open>
  The database is outside the repository. Whether it accepts a batch (constraints,
  types) is a parameter: a function of the committed tables, the target table and the
  batch.
\<close>

type_synonym db = "store \<Rightarrow> string \<Rightarrow> cell list list \<Rightarrow> bool"

text \<open>A connection: the committed tables and the rows of the open transaction.\<close>

record conn =
  committed :: store
  pending :: "cell list list"

definition executemany :: "db \<Rightarrow> string \<Rightarrow> cell list list \<Rightarrow> conn \<Rightarrow> conn option" where
  "executemany accepts table_name chunk c =
     (if accepts (committed c) table_name chunk
      then Some (c\<lparr>pending := pending c @ chunk\<rparr>) else None)"

definition commit :: "string \<Rightarrow> conn \<Rightarrow> conn" where
  "commit table_name c =
     \<lparr>committed = (committed c)(table_name := committed c table_name @ pending c),
      pending = []\<rparr>"

text \<open>Closing the connection drops the open transaction.\<close>

definition close :: "conn \<Rightarrow> store" where
  "close c = committed c"

text \<open>\<open>[data[i:i+chunksize] for i in range(0, total, chunksize)]\<close>\<close>

function chunks :: "nat \<Rightarrow> 'a list \<Rightarrow> 'a list list" where
  "chunks n xs = (if n = 0 \<or> xs = [] then [] else take n xs # chunks n (drop n xs))"
  by pat_completeness auto
termination
  by (relation "measure (\<lambda>(n, xs). length xs)") auto

declare chunks.simps [simp del]

text \<open>
  The loop of \<open>insert_data\<close>: each batch is inserted and committed; the first batch
  that fails ends the loop (the exception handler), with \<open>False\<close>.
\<close>

fun insert_loop :: "db \<Rightarrow> string \<Rightarrow> cell list list list \<Rightarrow> conn \<Rightarrow> bool \<times> conn" where
  "insert_loop accepts table_name [] c = (True, c)"
| "insert_loop accepts table_name (chunk # rest) c =
     (case executemany accepts table_name chunk c of
        None \<Rightarrow> (False, c)
      | Some c' \<Rightarrow> insert_loop accepts table_name rest (commit table_name c'))"

text \<open>
  \<open>insert_data\<close>. The result is the error that ends the process (\<open>sys.exit(1)\<close> in the
  handler), if any, and the store after the connection is closed. A step of 0 makes
  \<open>range\<close> raise inside the \<open>try\<close>.
\<close>

definition insert_data :: "db \<Rightarrow> cell list list \<Rightarrow> string \<Rightarrow> nat \<Rightarrow> store \<Rightarrow> error option \<times> store" where
  "insert_data accepts df table_name chunksize s =
     (let data = map (map where_notnull) df;
          c0 = \<lparr>committed = s, pending = []\<rparr>
      in if chunksize = 0 then (Some (LoadFailure table_name), close c0)
         else (case insert_loop accepts table_name (chunks chunksize data) c0 of
                 (True, c) \<Rightarrow> (None, close c)
               | (False, c) \<Rightarrow> (Some (LoadFailure table_name), close c)))"

subsection \<open>create\_dimensions\<close>

text \<open>\<open>drop_duplicates\<close>: the first row of every key is kept, in the order of the table.\<close>

fun drop_duplicates_seen :: "('a \<Rightarrow> 'k) \<Rightarrow> 'k list \<Rightarrow> 'a list \<Rightarrow> 'a list" where
  "drop_duplicates_seen key seen [] = []"
| "drop_duplicates_seen key seen (x # xs) =
     (if key x \<in> set seen then drop_duplicates_seen key seen xs
      else x # drop_duplicates_seen key (key x # seen) xs)"

definition drop_duplicates_by :: "('a \<Rightarrow> 'k) \<Rightarrow> 'a list \<Rightarrow> 'a list" where
  "drop_duplicates_by key xs = drop_duplicates_seen key [] xs"

definition drop_duplicates :: "'a list \<Rightarrow> 'a list" where
  "drop_duplicates xs = drop_duplicates_by (\<lambda>x. x) xs"


fun max_date :: "date option list \<Rightarrow> date option" where
  "max_date [] = None"
| "max_date (None # ds) = max_date ds"
| "max_date (Some d # ds) =
     (case max_date ds of None \<Rightarrow> Some d | Some m \<Rightarrow> Some (if date_le m d then d else m))"
















record shipmode_row =
  ShipModeID :: int
  ShipMode :: "string option"

text \<open>\<open>reset_index(drop=True)\<close>, then a key column \<open>index + 1\<close>.\<close>

definition index_plus_1 :: "'a list \<Rightarrow> int list" where
  "index_plus_1 xs = map (\<lambda>i. int i + 1) [0..<length xs]"

definition build_dim_shipmode :: "fframe \<Rightarrow> shipmode_row list" where
  "build_dim_shipmode df =
     (let vals = drop_duplicates (map (ship_mode \<circ> base) (frows df))
      in map (\<lambda>(i, v). \<lparr>ShipModeID = i, ShipMode = v\<rparr>) (zip (index_plus_1 vals) vals))"


definition loc_cols :: "string list" where
  "loc_cols = [''city'', ''state'', ''country'', ''region'', ''market'', ''postal_code'']"

definition available_cols :: "fframe \<Rightarrow> string list" where
  "available_cols df = filter (\<lambda>c. c \<in> set (fcolumns df)) loc_cols"

text \<open>The entry of a row in a location column.\<close>

definition loc_cell :: "row \<Rightarrow> string \<Rightarrow> cell" where
  "loc_cell r c =
     (if c = ''city'' then opt_cell StrV (city r)
      else if c = ''state'' then opt_cell StrV (state r)
      else if c = ''country'' then opt_cell StrV (country r)
      else if c = ''region'' then opt_cell StrV (region r)
      else if c = ''market'' then opt_cell StrV (market r)
      else opt_cell NumV (postal_code r))"

definition loc_tuple :: "string list \<Rightarrow> row \<Rightarrow> cell list" where
  "loc_tuple cols r = map (loc_cell r) cols"

record location_row =
  LocationID :: int
  loc_values :: "cell list"

text \<open>
  \<open>df[available_cols].drop_duplicates()\<close>. A table without columns is empty for pandas,
  and \<open>drop_duplicates\<close> returns an empty table as it is, with all its rows.
\<close>

definition build_dim_location :: "fframe \<Rightarrow> location_row list" where
  "build_dim_location df =
     (let tuples = map (loc_tuple (available_cols df) \<circ> base) (frows df);
          vals = (if available_cols df = [] then tuples else drop_duplicates tuples)
      in map (\<lambda>(i, v). \<lparr>LocationID = i, loc_values = v\<rparr>) (zip (index_plus_1 vals) vals))"



subsection \<open>load\_face\_sales\<close>

text \<open>
  \<open>left.merge(right, left_on=..., right_on=..., how='left')\<close>: the rows of the left
  table in their order, each with every right row of the same key, or once with a
  missing right side.
\<close>

definition merge_left :: "('a \<Rightarrow> 'k) \<Rightarrow> ('b \<Rightarrow> 'k) \<Rightarrow> 'a list \<Rightarrow> 'b list \<Rightarrow> ('a \<times> 'b option) list" where
  "merge_left left_on right_on left right =
     concat (map (\<lambda>l. case filter (\<lambda>r. right_on r = left_on l) right of
                         [] \<Rightarrow> [(l, None)]
                       | ms \<Rightarrow> map (\<lambda>m. (l, Some m)) ms) left)"

record fact_row =
  RowID :: int
  OrderID :: "string option"
  FDateKey :: int
  CustomerID :: "string option"
  ProductID :: "string option"
  FLocationID :: "int option"
  FShipModeID :: "int option"
  Sales :: "real option"
  Quantity :: "int option"
  Discount :: "real option"
  Profit :: "real option"
  ShippingCost :: "real option"
  f_shipping_days :: int
  f_profit_margin :: real
  f_is_profitable :: int
  f_discount_category :: string
  f_order_value_segment :: string

text \<open>The renaming and the projection \<open>fact[fact_cols]\<close> on one row of the joined table.\<close>

definition project_fact :: "(frow \<times> shipmode_row option) \<times> location_row option \<Rightarrow> fact_row" where
  "project_fact j =
     (case j of ((r, sm), loc) \<Rightarrow>
        \<lparr>RowID = row_id (base r),
         OrderID = order_id (base r),
         FDateKey = date_key r,
         CustomerID = customer_id (base r),
         ProductID = product_id (base r),
         FLocationID = map_option LocationID loc,
         FShipModeID = map_option ShipModeID sm,
         Sales = sales (base r),
         Quantity = quantity (base r),
         Discount = discount (base r),
         Profit = profit (base r),
         ShippingCost = shipping_cost (base r),
         f_shipping_days = shipping_days r,
         f_profit_margin = profit_margin r,
         f_is_profitable = is_profitable r,
         f_discount_category = discount_category r,
         f_order_value_segment = order_value_segment r\<rparr>)"

text \<open>
  The fact table before it is written. A join on an empty list of key columns raises in
  pandas.
\<close>

definition build_fact :: "fframe \<Rightarrow> shipmode_row list \<Rightarrow> location_row list \<Rightarrow> error + fact_row list" where
  "build_fact df dim_shipmode dim_location =
     (let fact = merge_left (ship_mode \<circ> base) ShipMode (frows df) dim_shipmode;
          left_keys = available_cols df
      in if left_keys = [] then Inl JoinError
         else let fact2 = merge_left (\<lambda>j. loc_tuple left_keys (base (fst j))) loc_values fact dim_location;
                  fact3 = drop_duplicates_by (\<lambda>j. row_id (base (fst (fst j)))) fact2
              in Inr (map project_fact fact3))"



subsection \<open>main\<close>




subsection \<open>Example data\<close>

text \<open>A row with every optional entry missing, and a small batch built from it.\<close>

definition blank_row :: row where
  "blank_row =
     \<lparr>row_id = 0, order_id = None, order_date = None, ship_date = None, ship_mode = None,
      customer_id = None, customer_name = None, segment = None, product_id = None,
      product_name = None, category = None, sub_category = None, city = None, state = None,
      country = None, region = None, market = None, postal_code = None, sales = None,
      quantity = None, discount = None, profit = None, shipping_cost = None\<rparr>"

definition example_row :: "int \<Rightarrow> date option \<Rightarrow> string option \<Rightarrow> string option \<Rightarrow> real \<Rightarrow> row" where
  "example_row i d sm c x =
     blank_row\<lparr>row_id := i, order_date := d, ship_mode := sm, city := c, sales := Some x,
       discount := Some (x / 10)\<rparr>"

definition example_frame :: frame where
  "example_frame =
     \<lparr>columns = [''Row ID'', ''Order Date'', ''Ship Mode'', ''City'', ''Sales'', ''Discount''],
      rows =
        [example_row 1 (Some (YMD 2024 2 28)) (Some ''Second Class'') (Some ''Austin'') 1,
         example_row 2 (Some (YMD 2024 3 1)) (Some ''Second Class'') None 2,
         example_row 2 None (Some ''First Class'') (Some ''Austin'') 3,
         example_row 4 (Some (YMD 2024 2 30)) None (Some ''Lima'') 4,
         example_row 5 (Some (YMD 2024 2 29)) (Some ''First Class'') (Some ''Lima'') 5]\<rparr>"

text \<open>The rows of the example batch after \<open>transform_data\<close>.\<close>

definition nan_row :: row where
  "nan_row =
     \<lparr>row_id = 0, order_id = Some ''nan'', order_date = None, ship_date = None,
      ship_mode = Some ''nan'', customer_id = Some ''NAN'', customer_name = Some ''nan'',
      segment = Some ''nan'', product_id = Some ''NAN'', product_name = Some ''nan'',
      category = Some ''nan'', sub_category = Some ''nan'', city = Some ''nan'',
      state = Some ''nan'', country = Some ''nan'', region = Some ''nan'', market = Some ''nan'',
      postal_code = None, sales = None, quantity = None, discount = None, profit = None,
      shipping_cost = None\<rparr>"

definition example_frow ::
  "int \<Rightarrow> date option \<Rightarrow> string \<Rightarrow> string \<Rightarrow> real \<Rightarrow> string \<Rightarrow> string \<Rightarrow> int \<Rightarrow> frow" where
  "example_frow i d sm c x dc seg k =
     \<lparr>base = nan_row\<lparr>row_id := i, order_date := d, ship_mode := Some sm, city := Some c,
               sales := Some x, discount := Some (x / 10)\<rparr>,
      shipping_days = 0, profit_margin = 0, is_profitable = 0, discount_category = dc,
      order_value_segment = seg, date_key = k\<rparr>"

definition example_fframe :: fframe where
  "example_fframe =
     \<lparr>fcolumns = [''row_id'', ''order_date'', ''ship_mode'', ''city'', ''sales'', ''discount''],
      frows =
        [example_frow 1 (Some (YMD 2024 2 28)) ''Second Class'' ''Austin'' 1 ''Low''
           ''Standard Value'' 20240228,
         example_frow 2 (Some (YMD 2024 3 1)) ''Second Class'' ''nan'' 2 ''High''
           ''Standard Value'' 20240301,
         example_frow 2 None ''First Class'' ''Austin'' 3 ''High'' ''Standard Value'' 0,
         example_frow 4 None ''nan'' ''Lima'' 4 ''High'' ''Standard Value'' 0,
         example_frow 5 (Some (YMD 2024 2 29)) ''First Class'' ''Lima'' 5 ''High''
           ''High Value'' 20240229]\<rparr>"

text \<open>
  Five rows to write, and a database that accepts a batch only into an empty table: the
  first batch of a load passes, the second fails.
\<close>

definition example_cells :: "cell list list" where
  "example_cells =
     [[IntV 1, NaN], [IntV 2, StrV ''nan''], [IntV 3, Null], [IntV 4, NaN], [IntV 5, NaN]]"

definition accepts_into_empty :: db where
  "accepts_into_empty s table_name chunk = (s table_name = [])"

definition accepts_all :: db where
  "accepts_all s table_name chunk = True"

subsection \<open>Notions used in the statements\<close>


text \<open>
  The rows of a table whose key occurs in no earlier row, in the order of the table:
  the first-encountered rows of the distinct keys.
\<close>

definition first_occurrences :: "('a \<Rightarrow> 'k) \<Rightarrow> 'a list \<Rightarrow> 'a list" where
  "first_occurrences key xs =
     map (\<lambda>i. xs ! i) (filter (\<lambda>i. key (xs ! i) \<notin> key ` set (take i xs)) [0..<length xs])"


text \<open>
  The fact row of a transformed row: its columns, with the surrogate keys of the first
  dimension rows of the same ship mode and of the same location tuple, if any.
\<close>

definition resolve_row :: "string list \<Rightarrow> shipmode_row list \<Rightarrow> location_row list \<Rightarrow> frow \<Rightarrow> fact_row" where
  "resolve_row cols dim_shipmode dim_location r =
     project_fact
       ((r, find (\<lambda>m. ShipMode m = ship_mode (base r)) dim_shipmode),
        find (\<lambda>l. loc_values l = loc_tuple cols (base r)) dim_location)"



section \<open>Properties\<close>

subsection \<open>The example batch\<close>







lemma example_available: "available_cols example_fframe = [''city'']"
  by (simp add: available_cols_def example_fframe_def loc_cols_def)











subsection \<open>Discount categories\<close>

lemma categorize_discount_short: "take 255 (categorize_discount d) = categorize_discount d"
  by (simp add: categorize_discount_def)

lemma discount_category_transform:
  "map discount_category (frows (transform_data df)) =
   map (\<lambda>r. categorize_discount (discount r)) (rows df)"
  by (simp add: transform_data_def feature_row_def normalize_row_def
      categorize_discount_short Let_def comp_def)

text \<open>
  Claim C7. \<open>discount_category\<close> is No Discount at exactly 0, Low strictly between 0 and
  0.2, and High from 0.2 on, the boundary 0.2 included; the column of the transformed
  table holds this value for the row's discount.
\<close>

theorem C7_discount_category:
  "categorize_discount (Some 0) = ''No Discount''
   \<and> (\<forall>d. 0 < d \<and> d < 0.2 \<longrightarrow> categorize_discount (Some d) = ''Low'')
   \<and> (\<forall>d. 0.2 \<le> d \<longrightarrow> categorize_discount (Some d) = ''High'')
   \<and> categorize_discount (Some 0.2) = ''High''
   \<and> map discount_category (frows (transform_data df)) =
       map (\<lambda>r. categorize_discount (discount r)) (rows df)"
  by (simp add: discount_category_transform) (simp add: categorize_discount_def)

theorem C7_discount_category_witness:
  "categorize_discount (Some 0.1) = ''Low'' \<and> categorize_discount (Some 0.5) = ''High''
   \<and> map discount_category (frows (transform_data example_frame)) =
       [''Low'', ''High'', ''High'', ''High'', ''High'']"
  using C7_discount_category [of example_frame]
  by (simp add: example_frame_def example_row_def blank_row_def)


subsection \<open>Order value segments\<close>









subsection \<open>Missing text entries\<close>








subsection \<open>Deduplication and surrogate keys\<close>

lemma drop_duplicates_seen_index:
  "drop_duplicates_seen key seen xs =
   map (\<lambda>i. xs ! i)
     (filter (\<lambda>i. key (xs ! i) \<notin> set seen \<union> key ` set (take i xs)) [0..<length xs])"
proof (induction xs arbitrary: seen)
  case Nil
  then show ?case by simp
next
  case (Cons x xs)
  have upt: "[0..<length (x # xs)] = 0 # map Suc [0..<length xs]"
    by (simp add: upt_conv_Cons map_Suc_upt del: upt_Suc)
  show ?case
  proof (cases "key x \<in> set seen")
    case True
    have "filter (\<lambda>i. key (xs ! i) \<notin> set seen \<union> key ` set (take i xs)) [0..<length xs] =
          filter (\<lambda>i. key (xs ! i) \<notin> set seen \<union> key ` set (x # take i xs)) [0..<length xs]"
      using True by (intro filter_cong) auto
    then show ?thesis
      using True by (simp only: upt) (simp add: Cons.IH filter_map comp_def conj_ac)
  next
    case False
    have "filter (\<lambda>i. key (xs ! i) \<notin> set (key x # seen) \<union> key ` set (take i xs)) [0..<length xs] =
          filter (\<lambda>i. key (xs ! i) \<notin> set seen \<union> key ` set (x # take i xs)) [0..<length xs]"
      by (intro filter_cong) auto
    then show ?thesis
      using False by (simp only: upt) (simp add: Cons.IH filter_map comp_def conj_ac)
  qed
qed

lemma drop_duplicates_by_first: "drop_duplicates_by key xs = first_occurrences key xs"
  by (simp add: drop_duplicates_by_def first_occurrences_def drop_duplicates_seen_index)

lemma drop_duplicates_seen_keys:
  "set (map key (drop_duplicates_seen key seen xs)) = key ` set xs - set seen"
  by (induction xs arbitrary: seen) auto

lemma drop_duplicates_seen_distinct:
  "distinct (map key (drop_duplicates_seen key seen xs))"
  by (induction xs arbitrary: seen) (auto simp: drop_duplicates_seen_keys simp del: set_map)




















subsection \<open>The date dimension\<close>


















lemma max_date_mem: "max_date col = Some hi \<Longrightarrow> Some hi \<in> set col"
  by (induction col arbitrary: hi rule: max_date.induct) (auto split: option.splits if_splits)













subsection \<open>The date keys of the fact rows\<close>






subsection \<open>The example batch: date dimension and date keys\<close>




subsection \<open>The rows of the fact table\<close>

lemma drop_duplicates_seen_skip:
  "\<forall>y \<in> set ys. key y \<in> set seen \<Longrightarrow>
   drop_duplicates_seen key seen (ys @ rest) = drop_duplicates_seen key seen rest"
  by (induction ys) auto

lemma drop_duplicates_seen_group:
  assumes "ys \<noteq> []" and "\<forall>y \<in> set ys. key y = k"
  shows "drop_duplicates_seen key seen (ys @ rest) =
         (if k \<in> set seen then drop_duplicates_seen key seen rest
          else hd ys # drop_duplicates_seen key (k # seen) rest)"
proof (cases "k \<in> set seen")
  case True
  then show ?thesis
    using assms(2) drop_duplicates_seen_skip [of ys key seen rest] by simp
next
  case False
  obtain y ys' where ys: "ys = y # ys'"
    using assms(1) by (cases ys) auto
  have ky: "key y = k" and rest: "\<forall>z \<in> set ys'. key z \<in> set (k # seen)"
    using assms(2) ys by auto
  show ?thesis
    using False ky drop_duplicates_seen_skip [OF rest, of rest] by (simp add: ys)
qed

text \<open>The rows a left row is joined to, and the first of them.\<close>

lemma merge_group:
  "(case filter P right of [] \<Rightarrow> [(l, None)] | m # ms \<Rightarrow> map (\<lambda>m. (l, Some m)) (m # ms)) \<noteq> []
   \<and> (\<forall>j \<in> set (case filter P right of [] \<Rightarrow> [(l, None)] | m # ms \<Rightarrow> map (\<lambda>m. (l, Some m)) (m # ms)).
         fst j = l)
   \<and> hd (case filter P right of [] \<Rightarrow> [(l, None)] | m # ms \<Rightarrow> map (\<lambda>m. (l, Some m)) (m # ms))
       = (l, find P right)"
proof -
  have "find P right = (case filter P right of [] \<Rightarrow> None | m # ms \<Rightarrow> Some m)"
    by (induction right) auto
  then show ?thesis
    by (cases "filter P right") auto
qed

lemma drop_duplicates_merge_left:
  "drop_duplicates_seen (\<lambda>j. key (fst j)) seen (merge_left lk rk left right) =
   map (\<lambda>l. (l, find (\<lambda>r. rk r = lk l) right)) (drop_duplicates_seen key seen left)"
proof (induction left arbitrary: seen)
  case Nil
  then show ?case by (simp add: merge_left_def)
next
  case (Cons l left)
  let ?g = "case filter (\<lambda>r. rk r = lk l) right of [] \<Rightarrow> [(l, None)]
            | m # ms \<Rightarrow> map (\<lambda>m. (l, Some m)) (m # ms)"
  have split: "merge_left lk rk (l # left) right = ?g @ merge_left lk rk left right"
    by (simp add: merge_left_def)
  have g: "?g \<noteq> []" "\<forall>j \<in> set ?g. key (fst j) = key l" "hd ?g = (l, find (\<lambda>r. rk r = lk l) right)"
    using merge_group [where P = "\<lambda>r. rk r = lk l" and right = right and l = l] by auto
  show ?case
    unfolding split
    using drop_duplicates_seen_group [OF g(1), of "\<lambda>j. key (fst j)" "key l" seen
        "merge_left lk rk left right"] g(2,3) Cons.IH
    by simp
qed

lemma build_fact_rows:
  assumes "available_cols df \<noteq> []"
  shows "build_fact df dim_shipmode dim_location =
         Inr (map (resolve_row (available_cols df) dim_shipmode dim_location)
                (first_occurrences (row_id \<circ> base) (frows df)))"
proof -
  let ?m1 = "merge_left (ship_mode \<circ> base) ShipMode (frows df) dim_shipmode"
  let ?lk = "\<lambda>j. loc_tuple (available_cols df) (base (fst j))"
  let ?m2 = "merge_left ?lk loc_values ?m1 dim_location"
  have "drop_duplicates_by (\<lambda>j. row_id (base (fst (fst j)))) ?m2 =
        map (\<lambda>j. (j, find (\<lambda>r. loc_values r = ?lk j) dim_location))
          (drop_duplicates_seen (\<lambda>j. row_id (base (fst j))) [] ?m1)"
    unfolding drop_duplicates_by_def
    using drop_duplicates_merge_left [of "\<lambda>j. row_id (base (fst j))" "[]" ?lk loc_values ?m1 dim_location]
    by simp
  also have "drop_duplicates_seen (\<lambda>j. row_id (base (fst j))) [] ?m1 =
        map (\<lambda>r. (r, find (\<lambda>m. ShipMode m = (ship_mode \<circ> base) r) dim_shipmode))
          (drop_duplicates_seen (row_id \<circ> base) [] (frows df))"
    using drop_duplicates_merge_left [of "row_id \<circ> base" "[]" "ship_mode \<circ> base" ShipMode "frows df" dim_shipmode]
    by (simp add: comp_def)
  finally have rows: "drop_duplicates_by (\<lambda>j. row_id (base (fst (fst j)))) ?m2 =
        map (\<lambda>r. ((r, find (\<lambda>m. ShipMode m = ship_mode (base r)) dim_shipmode),
                   find (\<lambda>l. loc_values l = loc_tuple (available_cols df) (base r)) dim_location))
          (first_occurrences (row_id \<circ> base) (frows df))"
    by (simp add: comp_def drop_duplicates_by_first [unfolded drop_duplicates_by_def])
  have "map project_fact (drop_duplicates_by (\<lambda>j. row_id (base (fst (fst j)))) ?m2) =
        map (resolve_row (available_cols df) dim_shipmode dim_location)
          (first_occurrences (row_id \<circ> base) (frows df))"
    unfolding rows by (simp add: resolve_row_def)
  then show ?thesis
    unfolding build_fact_def Let_def using assms by simp
qed

lemma build_fact_Inr:
  "build_fact df dim_shipmode dim_location = Inr final_fact \<Longrightarrow> available_cols df \<noteq> []"
  by (auto simp: build_fact_def Let_def split: if_splits)

lemma RowID_resolve_row: "RowID (resolve_row cols ds dl r) = row_id (base r)"
  by (simp add: resolve_row_def project_fact_def)

lemma first_occurrences_distinct: "distinct (map key (first_occurrences key xs))"
  using drop_duplicates_seen_distinct [of key "[]" xs]
  by (simp add: drop_duplicates_by_first [symmetric] drop_duplicates_by_def)

text \<open>
  Claim C4. The fact table holds one row for every RowID of the batch, built from the
  first row of the batch with that RowID, in the order of the batch: its RowID values
  are pairwise distinct and every later row of a repeated RowID is dropped.
\<close>

theorem C4_row_id_distinct:
  assumes "build_fact df dim_shipmode dim_location = Inr final_fact"
  shows "distinct (map RowID final_fact)
    \<and> final_fact = map (resolve_row (available_cols df) dim_shipmode dim_location)
                     (first_occurrences (row_id \<circ> base) (frows df))
    \<and> map RowID final_fact = map (row_id \<circ> base) (first_occurrences (row_id \<circ> base) (frows df))"
proof -
  have ff: "final_fact = map (resolve_row (available_cols df) dim_shipmode dim_location)
                     (first_occurrences (row_id \<circ> base) (frows df))"
    using assms build_fact_rows [OF build_fact_Inr [OF assms]] by simp
  have ids: "map RowID final_fact = map (row_id \<circ> base) (first_occurrences (row_id \<circ> base) (frows df))"
    by (simp add: ff RowID_resolve_row comp_def)
  have "distinct (map RowID final_fact)"
    unfolding ids by (rule first_occurrences_distinct)
  then show ?thesis
    using ff ids by blast
qed


lemma example_first_rows:
  "first_occurrences (row_id \<circ> base) (frows example_fframe) =
   [frows example_fframe ! 0, frows example_fframe ! 1, frows example_fframe ! 3,
    frows example_fframe ! 4]"
  unfolding drop_duplicates_by_first [symmetric] drop_duplicates_by_def
  by (simp add: example_fframe_def example_frow_def nan_row_def)

lemma example_build_fact:
  "build_fact example_fframe ds dl = Inr (projr (build_fact example_fframe ds dl))"
  by (simp add: build_fact_def example_available Let_def)

theorem C4_row_id_distinct_witness:
  "map (row_id \<circ> base) (frows example_fframe) = [1, 2, 2, 4, 5]
   \<and> map RowID (projr (build_fact example_fframe (build_dim_shipmode example_fframe)
         (build_dim_location example_fframe))) = [1, 2, 4, 5]
   \<and> distinct (map RowID (projr (build_fact example_fframe (build_dim_shipmode example_fframe)
         (build_dim_location example_fframe))))"
proof -
  have ids: "map (row_id \<circ> base) (frows example_fframe) = [1, 2, 2, 4, 5]"
    by (simp add: example_fframe_def example_frow_def nan_row_def)
  have firsts: "map (row_id \<circ> base) (first_occurrences (row_id \<circ> base) (frows example_fframe)) = [1, 2, 4, 5]"
    unfolding example_first_rows by (simp add: example_fframe_def example_frow_def nan_row_def)
  note c4 = C4_row_id_distinct [OF example_build_fact, of "build_dim_shipmode example_fframe"
        "build_dim_location example_fframe"]
  have d: "distinct (map RowID (projr (build_fact example_fframe (build_dim_shipmode example_fframe)
         (build_dim_location example_fframe))))"
    using c4 by blast
  have m: "map RowID (projr (build_fact example_fframe (build_dim_shipmode example_fframe)
         (build_dim_location example_fframe))) =
       map (row_id \<circ> base) (first_occurrences (row_id \<circ> base) (frows example_fframe))"
    using c4 by blast
  show ?thesis
    by (intro conjI) (rule ids, rule m [unfolded firsts], rule d)
qed

subsection \<open>Unresolved foreign keys\<close>







subsection \<open>Batches and commits\<close>

lemma chunks_concat: "0 < n \<Longrightarrow> concat (chunks n xs) = xs"
proof (induction n xs rule: chunks.induct)
  case (1 n xs)
  show ?case
  proof (cases "xs = []")
    case True
    then show ?thesis by (simp add: chunks.simps [of n "[]"])
  next
    case False
    then show ?thesis
      using 1 by (simp add: chunks.simps [of n xs])
  qed
qed

lemma chunks_sizes: "c \<in> set (chunks n xs) \<Longrightarrow> 0 < length c \<and> length c \<le> n"
proof (induction n xs rule: chunks.induct)
  case (1 n xs)
  then show ?case
    by (cases "n = 0 \<or> xs = []") (auto simp: chunks.simps [of n xs])
qed

lemma chunks_nth:
  "j < length (chunks n xs) \<Longrightarrow> chunks n xs ! j = take n (drop (j * n) xs)"
proof (induction n xs arbitrary: j rule: chunks.induct)
  case (1 n xs)
  show ?case
  proof (cases "n = 0 \<or> xs = []")
    case True
    then show ?thesis
      using "1.prems" by (simp add: chunks.simps [of n xs])
  next
    case False
    then have cs: "chunks n xs = take n xs # chunks n (drop n xs)"
      by (simp add: chunks.simps [of n xs])
    show ?thesis
    proof (cases j)
      case 0
      then show ?thesis by (simp add: cs)
    next
      case (Suc k)
      then have "k < length (chunks n (drop n xs))"
        using "1.prems" cs by simp
      then have "chunks n (drop n xs) ! k = take n (drop (k * n) (drop n xs))"
        using "1.IH" False by blast
      then show ?thesis
        by (simp add: cs Suc add.commute)
    qed
  qed
qed

text \<open>The store after the first \<open>j\<close> batches of a list of batches are committed.\<close>

lemma insert_loop_all:
  assumes "pending c = []"
    and "\<forall>j < length cs. accepts ((committed c)(t := committed c t @ concat (take j cs))) t (cs ! j)"
  shows "insert_loop accepts t cs c =
         (True, \<lparr>committed = (committed c)(t := committed c t @ concat cs), pending = []\<rparr>)"
  using assms
proof (induction cs arbitrary: c)
  case Nil
  then show ?case by simp
next
  case (Cons chunk cs)
  let ?c' = "commit t (c\<lparr>pending := pending c @ chunk\<rparr>)"
  have a0: "accepts (committed c) t chunk"
    using Cons.prems(2) [rule_format, of 0] by simp
  have c': "committed ?c' = (committed c)(t := committed c t @ chunk)" "pending ?c' = []"
    using Cons.prems(1) by (simp_all add: commit_def)
  have "\<forall>j < length cs. accepts ((committed ?c')(t := committed ?c' t @ concat (take j cs))) t (cs ! j)"
  proof (intro allI impI)
    fix j assume "j < length cs"
    then show "accepts ((committed ?c')(t := committed ?c' t @ concat (take j cs))) t (cs ! j)"
      using Cons.prems(2) [rule_format, of "Suc j"] by (simp add: c')
  qed
  then have "insert_loop accepts t cs ?c' =
         (True, \<lparr>committed = (committed ?c')(t := committed ?c' t @ concat cs), pending = []\<rparr>)"
    using Cons.IH [OF c'(2)] by blast
  then show ?case
    using a0 by (simp add: executemany_def c' fun_upd_def cong: if_cong)
qed

lemma insert_loop_fails:
  assumes "pending c = []" and "k < length cs"
    and "\<forall>j < k. accepts ((committed c)(t := committed c t @ concat (take j cs))) t (cs ! j)"
    and "\<not> accepts ((committed c)(t := committed c t @ concat (take k cs))) t (cs ! k)"
  shows "insert_loop accepts t cs c =
         (False, \<lparr>committed = (committed c)(t := committed c t @ concat (take k cs)), pending = []\<rparr>)"
  using assms
proof (induction cs arbitrary: c k)
  case Nil
  then show ?case by simp
next
  case (Cons chunk cs)
  show ?case
  proof (cases k)
    case 0
    then have "\<not> accepts (committed c) t chunk"
      using Cons.prems(4) by simp
    then show ?thesis
      using 0 Cons.prems(1) by (simp add: executemany_def)
  next
    case (Suc k')
    let ?c' = "commit t (c\<lparr>pending := pending c @ chunk\<rparr>)"
    have a0: "accepts (committed c) t chunk"
      using Cons.prems(3) [rule_format, of 0] Suc by simp
    have c': "committed ?c' = (committed c)(t := committed c t @ chunk)" "pending ?c' = []"
      using Cons.prems(1) by (simp_all add: commit_def)
    have k': "k' < length cs"
      using Cons.prems(2) Suc by simp
    have ok: "\<forall>j < k'. accepts ((committed ?c')(t := committed ?c' t @ concat (take j cs))) t (cs ! j)"
    proof (intro allI impI)
      fix j assume "j < k'"
      then show "accepts ((committed ?c')(t := committed ?c' t @ concat (take j cs))) t (cs ! j)"
        using Cons.prems(3) [rule_format, of "Suc j"] Suc by (simp add: c' fun_upd_def cong: if_cong)
    qed
    have bad: "\<not> accepts ((committed ?c')(t := committed ?c' t @ concat (take k' cs))) t (cs ! k')"
      using Cons.prems(4) Suc by (simp add: c' fun_upd_def cong: if_cong)
    have "insert_loop accepts t cs ?c' =
         (False, \<lparr>committed = (committed ?c')(t := committed ?c' t @ concat (take k' cs)), pending = []\<rparr>)"
      using Cons.IH [OF c'(2) k' ok bad] .
    then show ?thesis
      using a0 Suc by (simp add: executemany_def c' fun_upd_def cong: if_cong)
  qed
qed

lemma insert_data_all_accepted:
  assumes "0 < chunksize"
    and "\<forall>j < length (chunks chunksize (map (map where_notnull) df)).
           accepts (s(t := s t @ concat (take j (chunks chunksize (map (map where_notnull) df))))) t
             (chunks chunksize (map (map where_notnull) df) ! j)"
  shows "insert_data accepts df t chunksize s = (None, s(t := s t @ map (map where_notnull) df))"
proof -
  let ?cs = "chunks chunksize (map (map where_notnull) df)"
  let ?c0 = "\<lparr>committed = s, pending = []\<rparr>"
  have "insert_loop accepts t ?cs ?c0 =
        (True, \<lparr>committed = s(t := s t @ concat ?cs), pending = []\<rparr>)"
    using insert_loop_all [of ?c0 ?cs accepts t] assms(2) by simp
  then show ?thesis
    using assms(1) by (simp add: insert_data_def Let_def close_def chunks_concat)
qed

lemma insert_data_first_failure:
  assumes "0 < chunksize"
    and "k < length (chunks chunksize (map (map where_notnull) df))"
    and "\<forall>j < k. accepts (s(t := s t @ concat (take j (chunks chunksize (map (map where_notnull) df))))) t
             (chunks chunksize (map (map where_notnull) df) ! j)"
    and "\<not> accepts (s(t := s t @ concat (take k (chunks chunksize (map (map where_notnull) df))))) t
             (chunks chunksize (map (map where_notnull) df) ! k)"
  shows "insert_data accepts df t chunksize s =
         (Some (LoadFailure t),
          s(t := s t @ concat (take k (chunks chunksize (map (map where_notnull) df)))))"
proof -
  let ?cs = "chunks chunksize (map (map where_notnull) df)"
  let ?c0 = "\<lparr>committed = s, pending = []\<rparr>"
  have "insert_loop accepts t ?cs ?c0 =
        (False, \<lparr>committed = s(t := s t @ concat (take k ?cs)), pending = []\<rparr>)"
    using insert_loop_fails [of ?c0 k ?cs accepts t] assms(2,3,4) by simp
  then show ?thesis
    using assms(1) by (simp add: insert_data_def Let_def close_def)
qed

text \<open>
  Claim C8. The rows are cut into consecutive batches of \<open>chunksize\<close> rows (1000 at
  every call), the last one possibly shorter; each batch is inserted and committed in
  turn. When every batch is accepted the table ends with all the rows appended. When
  batch \<open>k\<close> is the first one that fails, the result is the load failure and the
  table holds the rows of the batches before \<open>k\<close>, and nothing of batch \<open>k\<close> or
  of a later one.
\<close>

theorem C8_insert_data:
  assumes "0 < chunksize"
  shows "concat (chunks chunksize (map (map where_notnull) df)) = map (map where_notnull) df
    \<and> (\<forall>j < length (chunks chunksize (map (map where_notnull) df)).
          chunks chunksize (map (map where_notnull) df) ! j =
            take chunksize (drop (j * chunksize) (map (map where_notnull) df))
          \<and> 0 < length (chunks chunksize (map (map where_notnull) df) ! j)
          \<and> length (chunks chunksize (map (map where_notnull) df) ! j) \<le> chunksize)
    \<and> ((\<forall>j < length (chunks chunksize (map (map where_notnull) df)).
           accepts (s(t := s t @ concat (take j (chunks chunksize (map (map where_notnull) df))))) t
             (chunks chunksize (map (map where_notnull) df) ! j)) \<longrightarrow>
         insert_data accepts df t chunksize s = (None, s(t := s t @ map (map where_notnull) df)))
    \<and> (\<forall>k < length (chunks chunksize (map (map where_notnull) df)).
          (\<forall>j < k. accepts (s(t := s t @ concat (take j (chunks chunksize (map (map where_notnull) df))))) t
             (chunks chunksize (map (map where_notnull) df) ! j))
          \<and> \<not> accepts (s(t := s t @ concat (take k (chunks chunksize (map (map where_notnull) df))))) t
             (chunks chunksize (map (map where_notnull) df) ! k) \<longrightarrow>
          insert_data accepts df t chunksize s =
            (Some (LoadFailure t),
             s(t := s t @ concat (take k (chunks chunksize (map (map where_notnull) df))))))"
proof -
  let ?data = "map (map where_notnull) df"
  let ?cs = "chunks chunksize ?data"
  have cat: "concat ?cs = ?data"
    using assms by (rule chunks_concat)
  have batch: "?cs ! j = take chunksize (drop (j * chunksize) ?data)
      \<and> 0 < length (?cs ! j) \<and> length (?cs ! j) \<le> chunksize" if "j < length ?cs" for j
    using chunks_nth [OF that] chunks_sizes [OF nth_mem [OF that]] by blast
  show ?thesis
    using cat batch insert_data_all_accepted [OF assms, of df accepts s t]
      insert_data_first_failure [OF assms, of _ df accepts s t]
    by blast
qed

end
